theory Spec2Isabelle
  imports Complex_Main "HOL-Library.Sublist"
begin

section \<open>Numbers and the functions of Python's math module\<close>

text \<open>
  Python's \<open>float\<close> is modelled by \<^typ>\<open>real\<close>: every arithmetic operation is the exact
  one, without rounding, overflow, infinities or NaN. The functions of the \<open>math\<close> module
  are the mathematical functions they approximate.
\<close>

definition radians :: "real \<Rightarrow> real" where
  \<comment> \<open>\<open>math.radians\<close>\<close>
  "radians d = d * pi / 180"

definition degrees :: "real \<Rightarrow> real" where
  \<comment> \<open>\<open>math.degrees\<close>\<close>
  "degrees r = r * 180 / pi"

definition hypot :: "real \<Rightarrow> real \<Rightarrow> real" where
  \<comment> \<open>\<open>math.hypot\<close>\<close>
  "hypot x y = sqrt (x\<^sup>2 + y\<^sup>2)"

definition atan2 :: "real \<Rightarrow> real \<Rightarrow> real" where
  \<comment> \<open>\<open>math.atan2(y, x)\<close>: the angle of the point \<open>(x, y)\<close>, in \<open>(-pi, pi]\<close>;
      \<open>atan2(0, 0)\<close> is \<open>0\<close>.\<close>
  "atan2 y x =
     (if 0 < x then arctan (y / x)
      else if x < 0 then (if 0 \<le> y then arctan (y / x) + pi else arctan (y / x) - pi)
      else if 0 < y then pi / 2
      else if y < 0 then - (pi / 2)
      else 0)"

definition fmod_py :: "real \<Rightarrow> real \<Rightarrow> real" where
  \<comment> \<open>Python's \<open>a % b\<close> on floats: the result has the sign of \<open>b\<close>.\<close>
  "fmod_py a b = a - b * of_int \<lfloor>a / b\<rfloor>"

section \<open>forces.py\<close>

definition GRAVITY :: real where
  "GRAVITY = 9.8"

definition weight :: "real \<Rightarrow> real \<Rightarrow> real" where
  "weight mass_kg gravity = mass_kg * gravity"

definition friction :: "real \<Rightarrow> real \<Rightarrow> real" where
  "friction normal coefficient = normal * coefficient"

text \<open>
  \<open>tension(weight=None, mass=None, gravity=GRAVITY)\<close>: an argument that is \<open>None\<close>
  (omitted) is \<^const>\<open>None\<close>, a supplied number \<open>v\<close> is \<open>Some v\<close>. The tests are
  \<open>is not None\<close>, so a supplied \<open>0.0\<close> counts as supplied.
\<close>

definition tension :: "real option \<Rightarrow> real option \<Rightarrow> real \<Rightarrow> real" where
  "tension weight_arg mass gravity =
     (case weight_arg of
        Some w \<Rightarrow> w
      | None \<Rightarrow> (case mass of Some m \<Rightarrow> m * gravity | None \<Rightarrow> 0))"

definition normal_force :: "real \<Rightarrow> real \<Rightarrow> real \<Rightarrow> real" where
  "normal_force mass gravity incline_angle_deg =
     (let theta = radians incline_angle_deg
      in mass * gravity * (if incline_angle_deg = 0 then 1 else cos theta))"

section \<open>vectors.py\<close>


definition from_magnitude_angle :: "real \<Rightarrow> real \<Rightarrow> real list" where
  "from_magnitude_angle m a =
     (let angle_rad = radians a in [m * cos angle_rad, m * sin angle_rad])"


section \<open>Python values and built-in operations\<close>

text \<open>
  The tools receive JSON-like arguments of any shape (\<open>Any\<close>); \<open>pyval\<close> is the tagged
  variant of the values that can arrive. A dictionary is an association list with string
  keys, looked up with \<^const>\<open>map_of\<close>. Integers and floats are both \<open>PNum\<close>.
\<close>

datatype pyval =
    PNone
  | PBool bool
  | PNum real
  | PStr string
  | PList "pyval list"
  | PDict "(string \<times> pyval) list"

type_synonym pydict = "(string \<times> pyval) list"

datatype error = TypeError | ValueError | IndexError | KeyError

definition has_key :: "string \<Rightarrow> pydict \<Rightarrow> bool" where
  \<comment> \<open>\<open>k in d\<close>\<close>
  "has_key k d = (map_of d k \<noteq> None)"

definition getitem :: "pydict \<Rightarrow> string \<Rightarrow> error + pyval" where
  \<comment> \<open>\<open>d[k]\<close>\<close>
  "getitem d k = (case map_of d k of None \<Rightarrow> Inl KeyError | Some v \<Rightarrow> Inr v)"

definition as_number :: "pyval \<Rightarrow> error + real" where
  \<comment> \<open>A value used as an operand of float arithmetic or as the argument of a \<open>math\<close>
      function: a number, or a bool (an \<open>int\<close> in Python); anything else raises
      \<open>TypeError\<close>.\<close>
  "as_number v =
     (case v of
        PNum r \<Rightarrow> Inr r
      | PBool b \<Rightarrow> Inr (if b then 1 else 0)
      | _ \<Rightarrow> Inl TypeError)"

text \<open>
  \<open>float(s)\<close> on a string is a parameter \<open>pf\<close> of the model: \<open>pf s = Some r\<close> when
  \<open>float\<close> reads \<open>s\<close> as \<open>r\<close>, \<open>None\<close> when it raises \<open>ValueError\<close>.
\<close>

definition py_float :: "(string \<Rightarrow> real option) \<Rightarrow> pyval \<Rightarrow> error + real" where
  \<comment> \<open>\<open>float(v)\<close>\<close>
  "py_float pf v =
     (case v of
        PNum r \<Rightarrow> Inr r
      | PBool b \<Rightarrow> Inr (if b then 1 else 0)
      | PStr s \<Rightarrow> (case pf s of Some r \<Rightarrow> Inr r | None \<Rightarrow> Inl ValueError)
      | _ \<Rightarrow> Inl TypeError)"

fun py_in :: "string \<Rightarrow> string \<Rightarrow> bool" where
  \<comment> \<open>\<open>sub in s\<close> on strings\<close>
  "py_in sub [] = (sub = [])"
| "py_in sub (c # cs) = (prefix sub (c # cs) \<or> py_in sub cs)"

function split_sep :: "string \<Rightarrow> string \<Rightarrow> string \<Rightarrow> string list" where
  \<comment> \<open>\<open>s.split(sep)\<close> for a non-empty \<open>sep\<close>, scanning from the left; the second
      argument is the current piece, reversed.\<close>
  "split_sep sep acc [] = [rev acc]"
| "split_sep sep acc (c # cs) =
     (if sep \<noteq> [] \<and> prefix sep (c # cs)
      then rev acc # split_sep sep [] (drop (length sep) (c # cs))
      else split_sep sep (c # acc) cs)"
  by pat_completeness auto
termination
  by (relation "measure (\<lambda>(sep, acc, s). length s)") auto

definition py_split :: "string \<Rightarrow> string \<Rightarrow> string list" where
  "py_split sep s = split_sep sep [] s"

definition is_space :: "char \<Rightarrow> bool" where
  \<comment> \<open>The characters below U+0100 that \<open>str.split()\<close> treats as whitespace.\<close>
  "is_space c = (c \<in> set [CHR 0x09, CHR 0x0A, CHR 0x0B, CHR 0x0C, CHR 0x0D,
                          CHR 0x1C, CHR 0x1D, CHR 0x1E, CHR 0x1F, CHR 0x20,
                          CHR 0x85, CHR 0xA0])"

fun split_ws :: "string \<Rightarrow> string \<Rightarrow> string list" where
  \<comment> \<open>\<open>s.split()\<close>: the maximal runs of non-whitespace characters; the first argument is
      the current run, reversed.\<close>
  "split_ws acc [] = (if acc = [] then [] else [rev acc])"
| "split_ws acc (c # cs) =
     (if is_space c then (if acc = [] then split_ws [] cs else rev acc # split_ws [] cs)
      else split_ws (c # acc) cs)"

definition py_split_ws :: "string \<Rightarrow> string list" where
  "py_split_ws s = split_ws [] s"

definition index :: "'a list \<Rightarrow> nat \<Rightarrow> error + 'a" where
  \<comment> \<open>\<open>xs[i]\<close> for a literal \<open>i \<ge> 0\<close>\<close>
  "index xs i = (if i < length xs then Inr (xs ! i) else Inl IndexError)"

fun str_nat :: "nat \<Rightarrow> string" where
  \<comment> \<open>\<open>str(n)\<close> for \<open>n \<ge> 0\<close>, as in the f-string \<open>f"F{idx+1}"\<close>\<close>
  "str_nat n =
     (if n < 10 then [''0123456789'' ! n]
      else str_nat (n div 10) @ [''0123456789'' ! (n mod 10)])"

section \<open>diagram.py\<close>

text \<open>
  The body of the \<open>try\<close> block of \<open>parse_vector\<close> when \<open>"at" in vec\<close>: the magnitude is
  the first whitespace-delimited word after the first \<open>=\<close>, the angle the first word
  after the first \<open>at\<close>.
\<close>

definition parse_text :: "(string \<Rightarrow> real option) \<Rightarrow> string \<Rightarrow> error + real list" where
  "parse_text pf vec =
     (case index (py_split ''='' vec) 1 of Inl e \<Rightarrow> Inl e | Inr after_eq \<Rightarrow>
      case index (py_split_ws after_eq) 0 of Inl e \<Rightarrow> Inl e | Inr mag_word \<Rightarrow>
      case py_float pf (PStr mag_word) of Inl e \<Rightarrow> Inl e | Inr mag \<Rightarrow>
      case index (py_split ''at'' vec) 1 of Inl e \<Rightarrow> Inl e | Inr after_at \<Rightarrow>
      case index (py_split_ws after_at) 0 of Inl e \<Rightarrow> Inl e | Inr angle_word \<Rightarrow>
      case py_float pf (PStr angle_word) of Inl e \<Rightarrow> Inl e | Inr angle \<Rightarrow>
        (let angle_rad = radians angle
         in Inr [mag * cos angle_rad, mag * sin angle_rad]))"

fun parse_vector :: "(string \<Rightarrow> real option) \<Rightarrow> pyval \<Rightarrow> error + real list" where
  "parse_vector pf (PDict d) =
     (if has_key ''magnitude'' d \<and> has_key ''angle_deg'' d then
        (case getitem d ''angle_deg'' of Inl e \<Rightarrow> Inl e | Inr a \<Rightarrow>
         case as_number a of Inl e \<Rightarrow> Inl e | Inr angle \<Rightarrow>
         case getitem d ''magnitude'' of Inl e \<Rightarrow> Inl e | Inr m \<Rightarrow>
         case as_number m of Inl e \<Rightarrow> Inl e | Inr mag \<Rightarrow>
           (let angle_rad = radians angle
            in Inr [mag * cos angle_rad, mag * sin angle_rad]))
      else Inr [0, 0])"
| "parse_vector pf (PList xs) =
     (if length xs = 2 then
        (case py_float pf (xs ! 0) of Inl e \<Rightarrow> Inl e | Inr x \<Rightarrow>
         case py_float pf (xs ! 1) of Inl e \<Rightarrow> Inl e | Inr y \<Rightarrow> Inr [x, y])
      else Inr [0, 0])"
| "parse_vector pf (PStr vec) =
     (if py_in ''at'' vec then
        (case parse_text pf vec of
           Inr v \<Rightarrow> Inr v
         | Inl e \<Rightarrow> Inr [0, 0])
      else Inr [0, 0])"
| "parse_vector pf v = Inr [0, 0]"

text \<open>
  The inputs that the normalisation does not recognise: neither a mapping with both
  \<open>magnitude\<close> and \<open>angle_deg\<close>, nor a list of two elements, nor a text that
  contains \<open>at\<close> and is parsed without an exception.
\<close>

definition parseable_text :: "(string \<Rightarrow> real option) \<Rightarrow> string \<Rightarrow> bool" where
  "parseable_text pf s =
     (py_in ''at'' s \<and> (case parse_text pf s of Inr v \<Rightarrow> True | Inl e \<Rightarrow> False))"

definition unrecognized :: "(string \<Rightarrow> real option) \<Rightarrow> pyval \<Rightarrow> bool" where
  "unrecognized pf v =
     (case v of
        PDict d \<Rightarrow> \<not> (has_key ''magnitude'' d \<and> has_key ''angle_deg'' d)
      | PList xs \<Rightarrow> length xs \<noteq> 2
      | PStr s \<Rightarrow> \<not> parseable_text pf s
      | _ \<Rightarrow> True)"

text \<open>
  Formatting a float with \<open>n\<close> decimals (\<open>f"{v:.nf}"\<close>) is a parameter \<open>fmt\<close> of the
  model. \<open>CHR 0xB0\<close> is the degree sign, \<open>CHR 0x0A\<close> the newline.
\<close>

definition vector_label :: "(nat \<Rightarrow> real \<Rightarrow> string) \<Rightarrow> real list \<Rightarrow> string" where
  \<comment> \<open>with the default arguments \<open>name=""\<close>, \<open>unit="N"\<close>\<close>
  "vector_label fmt vec =
     (let mag = hypot (vec ! 0) (vec ! 1);
          angle = fmod_py (degrees (atan2 (vec ! 1) (vec ! 0)) + 360) 360
      in [] @ '' ('' @ fmt 2 mag @ '' '' @ ''N'' @ '' @ '' @ fmt 1 angle @ [CHR 0xB0] @ '')'')"

datatype svg_elem =
    Circle "real \<times> real" real string string real
  | Text pyval "real \<times> real" string string
  | Line "real \<times> real" "real \<times> real" string real string
  | Polygon "(real \<times> real) list" string
  | Marker "real \<times> real" "real \<times> real" string string "svg_elem list"

record drawing =
  size :: "real \<times> real"
  elements :: "svg_elem list"
  defs :: "svg_elem list"

definition color_cycle :: "string list" where
  "color_cycle = [''red'', ''blue'', ''green'', ''purple'', ''orange'', ''brown'', ''darkcyan'']"

definition center :: "real \<times> real" where
  "center = (200, 200)"

text \<open>
  One iteration of the loop of \<open>draw_free_body\<close>: the elements it adds for the force
  at position \<open>idx\<close>. \<open>arrow_marker.get_funciri()\<close> is \<open>url(#arrow)\<close>, the marker's id
  being given as \<open>arrow\<close>. The default of \<open>force.get("label", ...)\<close> is computed
  whether the label is present or not.
\<close>

definition draw_force ::
  "(nat \<Rightarrow> real \<Rightarrow> string) \<Rightarrow> (string \<Rightarrow> real option) \<Rightarrow> nat \<Rightarrow> pydict
     \<Rightarrow> error + svg_elem list" where
  "draw_force fmt pf idx force =
     (case getitem force ''vector'' of Inl e \<Rightarrow> Inl e | Inr v \<Rightarrow>
      case parse_vector pf v of Inl e \<Rightarrow> Inl e | Inr vec \<Rightarrow>
        (let mag = hypot (vec ! 0) (vec ! 1);
             angle = atan2 (vec ! 1) (vec ! 0);
             len = max 30 (mag * 30);
             x2 = fst center + len * cos angle;
             y2 = snd center - len * sin angle;
             color = color_cycle ! (idx mod length color_cycle);
             dflt = PStr (vector_label fmt vec);
             label = (case map_of force ''label'' of Some l \<Rightarrow> l | None \<Rightarrow> dflt);
             label_x = (fst center + x2) / 2 + 10;
             label_y = (snd center + y2) / 2 - 10
         in Inr [Line center (x2, y2) color 4 ''url(#arrow)'',
                 Text label (label_x, label_y) ''12px'' color]))"

fun draw_forces ::
  "(nat \<Rightarrow> real \<Rightarrow> string) \<Rightarrow> (string \<Rightarrow> real option) \<Rightarrow> nat \<Rightarrow> pydict list
     \<Rightarrow> drawing \<Rightarrow> error + drawing" where
  \<comment> \<open>\<open>for idx, force in enumerate(forces)\<close>, from position \<open>idx\<close> on\<close>
  "draw_forces fmt pf idx [] dwg = Inr dwg"
| "draw_forces fmt pf idx (force # forces) dwg =
     (case draw_force fmt pf idx force of
        Inl e \<Rightarrow> Inl e
      | Inr es \<Rightarrow> draw_forces fmt pf (idx + 1) forces (dwg\<lparr>elements := elements dwg @ es\<rparr>))"

definition free_body_drawing ::
  "(nat \<Rightarrow> real \<Rightarrow> string) \<Rightarrow> (string \<Rightarrow> real option) \<Rightarrow> pydict list \<Rightarrow> string
     \<Rightarrow> error + drawing" where
  \<comment> \<open>\<open>draw_free_body\<close> up to its last line: the drawing that is serialised\<close>
  "free_body_drawing fmt pf forces object_name =
     (let dwg = \<lparr>size = (400, 400), elements = [], defs = []\<rparr>;
          dwg = dwg\<lparr>elements := elements dwg
                  @ [Circle center 20 ''lightgrey'' ''black'' 2]\<rparr>;
          dwg = dwg\<lparr>elements := elements dwg
                  @ [Text (PStr object_name) (fst center - 22, snd center + 45)
                       ''16px'' ''black'']\<rparr>;
          arrow_marker = Marker (10, 5) (10, 10) ''auto'' ''arrow''
                           [Polygon [(0, 0), (10, 5), (0, 10)] ''black''];
          dwg = dwg\<lparr>defs := defs dwg @ [arrow_marker]\<rparr>
      in draw_forces fmt pf 0 forces dwg)"

text \<open>
  \<open>dwg.tostring()\<close>, the serialisation of the svgwrite library, is a parameter
  \<open>tostring\<close> of the model.
\<close>

definition draw_free_body ::
  "(drawing \<Rightarrow> string) \<Rightarrow> (nat \<Rightarrow> real \<Rightarrow> string) \<Rightarrow> (string \<Rightarrow> real option)
     \<Rightarrow> pydict list \<Rightarrow> string \<Rightarrow> error + string" where
  "draw_free_body tostring fmt pf forces object_name =
     (case free_body_drawing fmt pf forces object_name of
        Inl e \<Rightarrow> Inl e
      | Inr dwg \<Rightarrow> Inr (tostring dwg))"


record net =
  net_x :: real
  net_y :: real
  mag :: real
  angle :: real

fun net_sum ::
  "(string \<Rightarrow> real option) \<Rightarrow> pyval list \<Rightarrow> real \<times> real \<Rightarrow> error + real \<times> real" where
  \<comment> \<open>the loop of \<open>net_force\<close>; \<open>x, y = parse_vector(f)\<close> raises \<open>ValueError\<close> unless
      the list has two elements\<close>
  "net_sum pf [] acc = Inr acc"
| "net_sum pf (f # fs) acc =
     (case parse_vector pf f of
        Inl e \<Rightarrow> Inl e
      | Inr [x, y] \<Rightarrow> net_sum pf fs (fst acc + x, snd acc + y)
      | Inr _ \<Rightarrow> Inl ValueError)"

definition net_force_values :: "(string \<Rightarrow> real option) \<Rightarrow> pyval list \<Rightarrow> error + net" where
  \<comment> \<open>\<open>net_force\<close> of diagram.py up to its last line: the four numbers it reports\<close>
  "net_force_values pf forces =
     (case net_sum pf forces (0, 0) of
        Inl e \<Rightarrow> Inl e
      | Inr (nx, ny) \<Rightarrow>
          Inr \<lparr>net_x = nx, net_y = ny, mag = hypot nx ny,
               angle = fmod_py (degrees (atan2 ny nx) + 360) 360\<rparr>)"

definition net_force ::
  "(nat \<Rightarrow> real \<Rightarrow> string) \<Rightarrow> (string \<Rightarrow> real option) \<Rightarrow> pyval list \<Rightarrow> error + string" where
  "net_force fmt pf forces =
     (case net_force_values pf forces of
        Inl e \<Rightarrow> Inl e
      | Inr n \<Rightarrow>
          Inr (''Net force: '' @ fmt 2 (mag n) @ '' N at '' @ fmt 1 (angle n) @ [CHR 0xB0]
               @ '' (from +x axis, CCW)'' @ [CHR 0x0A]
               @ ''Components: ('' @ fmt 2 (net_x n) @ '' N, '' @ fmt 2 (net_y n) @ '' N)''))"

text \<open>
  \<open>float(sp.sympify(f))\<close> is a parameter \<open>sf\<close> of the model: \<open>Some mag\<close> when it
  yields a number, \<open>None\<close> when it raises.
\<close>

definition smart_entry :: "(string \<Rightarrow> real option) \<Rightarrow> nat \<Rightarrow> pyval \<Rightarrow> pydict list" where
  \<comment> \<open>what one iteration of the loop of \<open>smart_diagram\<close> appends to \<open>force_dicts\<close>\<close>
  "smart_entry sf idx f =
     (case f of
        PDict d \<Rightarrow>
          (if has_key ''label'' d \<and> has_key ''vector'' d then [d]
           else if has_key ''magnitude'' d \<and> has_key ''angle_deg'' d
           then [[(''label'', PStr (''F'' @ str_nat (idx + 1))), (''vector'', f)]]
           else [])
      | PList xs \<Rightarrow>
          (if length xs = 2
           then [[(''label'', PStr (''F'' @ str_nat (idx + 1))), (''vector'', f)]]
           else [])
      | PStr s \<Rightarrow>
          (case sf s of
             Some m \<Rightarrow> [[(''label'', PStr (''F'' @ str_nat (idx + 1))),
                          (''vector'', PList [PNum m, PNum 0])]]
           | None \<Rightarrow> [])
      | _ \<Rightarrow> [])"

fun force_dicts :: "(string \<Rightarrow> real option) \<Rightarrow> nat \<Rightarrow> pyval list \<Rightarrow> pydict list" where
  \<comment> \<open>\<open>for idx, f in enumerate(forces)\<close>, from position \<open>idx\<close> on\<close>
  "force_dicts sf idx [] = []"
| "force_dicts sf idx (f # fs) = smart_entry sf idx f @ force_dicts sf (idx + 1) fs"

definition smart_diagram ::
  "(drawing \<Rightarrow> string) \<Rightarrow> (nat \<Rightarrow> real \<Rightarrow> string) \<Rightarrow> (string \<Rightarrow> real option)
     \<Rightarrow> (string \<Rightarrow> real option) \<Rightarrow> pyval list \<Rightarrow> string \<Rightarrow> error + string" where
  "smart_diagram tostring fmt pf sf forces object_name =
     draw_free_body tostring fmt pf (force_dicts sf 0 forces) object_name"

definition arrows :: "drawing \<Rightarrow> svg_elem list" where
  \<comment> \<open>the arrows of a drawing: its line elements\<close>
  "arrows dwg = filter (\<lambda>e. case e of Line _ _ _ _ _ \<Rightarrow> True | _ \<Rightarrow> False) (elements dwg)"

section \<open>math\_server.py\<close>

text \<open>
  The two libraries are parameters: \<open>pint s\<close> is \<open>Inr (r, b)\<close> when
  \<open>ureg.parse_expression(s)\<close>, \<open>to_base_units()\<close> and the formatting of both succeed,
  with \<open>r\<close> and \<open>b\<close> the texts of \<open>{result:~}\<close> and \<open>{base:~}\<close>, and \<open>Inl m\<close> when any
  of them raises, with \<open>m\<close> the text of the exception. \<open>sympy s\<close> is \<open>Inr v\<close> with the text
  of \<open>sp.simplify(sp.sympify(s))\<close>, or \<open>Inl m\<close> likewise.
\<close>

definition evaluate_expression ::
  "(string \<Rightarrow> string + string \<times> string) \<Rightarrow> (string \<Rightarrow> string + string) \<Rightarrow> string \<Rightarrow> string" where
  "evaluate_expression pint sympy expr =
     (case pint expr of
        Inr (r, b) \<Rightarrow> expr @ '' = '' @ r @ '' = '' @ b
      | Inl pint_exc \<Rightarrow>
          (case sympy expr of
             Inr v \<Rightarrow> expr @ '' = '' @ v
           | Inl sympy_exc \<Rightarrow>
               ''Error: Could not evaluate expression. (Pint: '' @ pint_exc
               @ ''; SymPy: '' @ sympy_exc @ '')''))"

section \<open>A reader of number literals for the examples\<close>

text \<open>
  \<open>float_literal\<close> reads an unsigned decimal integer literal, as \<open>float\<close> does, and
  rejects every other string. It instantiates the parameters \<open>pf\<close> and \<open>sf\<close> in the
  examples, at strings that are such literals or that \<open>float\<close> rejects as well.
\<close>

definition is_digit :: "char \<Rightarrow> bool" where
  "is_digit c = (48 \<le> (of_char c :: nat) \<and> (of_char c :: nat) \<le> 57)"

definition float_literal :: "string \<Rightarrow> real option" where
  "float_literal s =
     (if s \<noteq> [] \<and> list_all is_digit s
      then Some (real (foldl (\<lambda>n c. 10 * n + (of_char c - 48)) 0 s))
      else None)"

section \<open>Partial sums of the arctangent series\<close>

definition arctan_partial :: "real \<Rightarrow> nat \<Rightarrow> real" where
  \<comment> \<open>the first \<open>n\<close> terms of \<open>x - x^3/3 + x^5/5 - ...\<close>, used to bound \<open>pi\<close> and
      \<open>arctan 3\<close>\<close>
  "arctan_partial x n = (\<Sum>i<n. (- 1) ^ i * (1 / real (i * 2 + 1) * x ^ (i * 2 + 1)))"

section \<open>Properties of forces.py\<close>

text \<open>
  C8. When a weight is supplied, \<open>tension\<close> returns that weight whether or not a mass is
  supplied as well (so with both supplied the weight wins); when only a mass is supplied
  it returns mass times gravity.
\<close>

theorem tension_weight_precedence:
  "tension (Some w) (Some m) g = w \<and> tension (Some w) None g = w
   \<and> tension None (Some m) g = m * g"
  by (simp add: tension_def)

text \<open>
  C10. A call of \<open>tension\<close> with neither a weight nor a mass returns \<open>0.0\<close>; it does not
  fail.
\<close>

theorem tension_nothing_supplied: "tension None None g = 0"
  by (simp add: tension_def)

section \<open>Properties of vectors.py\<close>




section \<open>More properties of forces.py\<close>

lemma sqrt3_lower: "1.7320408164 < sqrt 3"
  by (rule real_less_rsqrt) (simp add: power2_eq_square)

lemma sqrt3_upper: "sqrt 3 < 1.7322"
  by (rule real_less_lsqrt) (simp_all add: power2_eq_square)

lemma cos_30_degrees: "cos (30 * pi / 180) = sqrt 3 / 2"
proof -
  have "30 * pi / 180 = pi / 6" by simp
  then show ?thesis using cos_30 by presburger
qed

lemma sin_30_degrees: "sin (30 * pi / 180) = 1 / 2"
proof -
  have "30 * pi / 180 = pi / 6" by simp
  then show ?thesis using sin_30 by presburger
qed

text \<open>
  C7. For every mass, gravity and incline angle, \<open>normal_force\<close> returns \<open>m * g\<close> when
  the angle is 0 and \<open>m * g * cos theta\<close>, with \<open>theta\<close> the angle in radians, otherwise.
  In particular \<open>normal_force(5, 9.8, 30)\<close> is \<open>5 * 9.8 * cos (30 degrees)\<close>, which is
  42.44 to two decimals.
\<close>

theorem normal_force_cases:
  "normal_force m g theta = (if theta = 0 then m * g else m * g * cos (theta * pi / 180))
   \<and> normal_force 5 9.8 30 = 5 * 9.8 * cos (30 * pi / 180)
   \<and> \<bar>normal_force 5 9.8 30 - 42.44\<bar> < 0.005"
proof -
  have general: "normal_force m g theta
      = (if theta = 0 then m * g else m * g * cos (theta * pi / 180))"
    by (simp add: normal_force_def radians_def)
  have example: "normal_force 5 9.8 30 = 5 * 9.8 * cos (30 * pi / 180)"
    by (simp add: normal_force_def radians_def)
  have val: "normal_force 5 9.8 30 = 49 * sqrt 3 / 2"
    using example by (simp only: cos_30_degrees)
  have "\<bar>49 * sqrt 3 / 2 - 42.44\<bar> < 0.005"
    using sqrt3_lower sqrt3_upper by (simp add: abs_less_iff)
  then have approx: "\<bar>normal_force 5 9.8 30 - 42.44\<bar> < 0.005"
    by (simp only: val)
  show ?thesis
    by (rule conjI [OF general conjI [OF example approx]])
qed

section \<open>Properties of math\_server.py\<close>

text \<open>
  C3. When the dimension-aware evaluation and the symbolic evaluation both fail,
  \<open>evaluate_expression\<close> returns one message that contains the text of both failures;
  when the dimension-aware evaluation succeeds, the result does not depend on the
  symbolic evaluator, which is not consulted.
\<close>

theorem evaluate_expression_fallback:
  "(pint expr = Inl pint_exc \<and> sympy expr = Inl sympy_exc \<longrightarrow>
      evaluate_expression pint sympy expr
        = ''Error: Could not evaluate expression. (Pint: '' @ pint_exc
          @ ''; SymPy: '' @ sympy_exc @ '')''
      \<and> sublist pint_exc (evaluate_expression pint sympy expr)
      \<and> sublist sympy_exc (evaluate_expression pint sympy expr))
   \<and> (pint expr' = Inr rb \<longrightarrow>
      evaluate_expression pint sympy expr' = evaluate_expression pint sympy' expr')"
proof -
  have both: "evaluate_expression pint sympy expr
        = ''Error: Could not evaluate expression. (Pint: '' @ pint_exc
          @ ''; SymPy: '' @ sympy_exc @ '')''"
    if "pint expr = Inl pint_exc" "sympy expr = Inl sympy_exc"
    using that by (simp add: evaluate_expression_def)
  have sub1: "sublist pint_exc (''Error: Could not evaluate expression. (Pint: '' @ pint_exc
          @ ''; SymPy: '' @ sympy_exc @ '')'')"
    unfolding sublist_def by blast
  have sub2: "sublist sympy_exc (''Error: Could not evaluate expression. (Pint: '' @ pint_exc
          @ ''; SymPy: '' @ sympy_exc @ '')'')"
    unfolding sublist_def
    by (rule exI [of _ "''Error: Could not evaluate expression. (Pint: '' @ pint_exc
          @ ''; SymPy: ''"], rule exI [of _ "'')''"]) simp
  have indep: "evaluate_expression pint sympy expr' = evaluate_expression pint sympy' expr'"
    if "pint expr' = Inr rb"
    using that by (simp add: evaluate_expression_def split: prod.splits)
  show ?thesis
    using both sub1 sub2 indep by presburger
qed

theorem evaluate_expression_fallback_witness:
  "evaluate_expression
       (\<lambda>s. if s = ''5 N'' then Inr (''5 N'', ''5 kg*m/s**2'') else Inl ''no unit'')
       (\<lambda>s. Inl ''bad syntax'') ''1 +''
     = ''Error: Could not evaluate expression. (Pint: no unit; SymPy: bad syntax)''
   \<and> sublist ''no unit''
       (evaluate_expression
          (\<lambda>s. if s = ''5 N'' then Inr (''5 N'', ''5 kg*m/s**2'') else Inl ''no unit'')
          (\<lambda>s. Inl ''bad syntax'') ''1 +'')
   \<and> sublist ''bad syntax''
       (evaluate_expression
          (\<lambda>s. if s = ''5 N'' then Inr (''5 N'', ''5 kg*m/s**2'') else Inl ''no unit'')
          (\<lambda>s. Inl ''bad syntax'') ''1 +'')
   \<and> evaluate_expression
       (\<lambda>s. if s = ''5 N'' then Inr (''5 N'', ''5 kg*m/s**2'') else Inl ''no unit'')
       (\<lambda>s. Inl ''bad syntax'') ''5 N''
     = evaluate_expression
       (\<lambda>s. if s = ''5 N'' then Inr (''5 N'', ''5 kg*m/s**2'') else Inl ''no unit'')
       (\<lambda>s. Inr ''5*N'') ''5 N''"
proof -
  let ?pint = "\<lambda>s. if s = ''5 N'' then Inr (''5 N'', ''5 kg*m/s**2'') else Inl ''no unit''"
  let ?sympy = "\<lambda>s::string. (Inl ''bad syntax'' :: string + string)"
  let ?sympy' = "\<lambda>s::string. (Inr ''5*N'' :: string + string)"
  have h1: "?pint ''1 +'' = Inl ''no unit''" by simp
  have h2: "?sympy ''1 +'' = Inl ''bad syntax''" by simp
  have h3: "?pint ''5 N'' = Inr (''5 N'', ''5 kg*m/s**2'')" by simp
  note w = evaluate_expression_fallback
    [where pint = "?pint" and sympy = "?sympy" and sympy' = "?sympy'" and expr = "''1 +''"
       and pint_exc = "''no unit''" and sympy_exc = "''bad syntax''" and expr' = "''5 N''"
       and rb = "(''5 N'', ''5 kg*m/s**2'')"]
  have a: "evaluate_expression ?pint ?sympy ''1 +''
        = ''Error: Could not evaluate expression. (Pint: '' @ ''no unit''
          @ ''; SymPy: '' @ ''bad syntax'' @ '')''"
    and b: "sublist ''no unit'' (evaluate_expression ?pint ?sympy ''1 +'')"
    and c: "sublist ''bad syntax'' (evaluate_expression ?pint ?sympy ''1 +'')"
    and d: "evaluate_expression ?pint ?sympy ''5 N'' = evaluate_expression ?pint ?sympy' ''5 N''"
    using w h1 h2 h3 by blast+
  from a have a': "evaluate_expression ?pint ?sympy ''1 +''
        = ''Error: Could not evaluate expression. (Pint: no unit; SymPy: bad syntax)''"
    by simp
  show ?thesis
    by (rule conjI [OF a' conjI [OF b conjI [OF c d]]])
qed

section \<open>Bounds for \<open>pi\<close> and \<open>arctan 3\<close>\<close>

lemma arctan_leibniz:
  assumes "0 < x" "x \<le> 1"
  shows "arctan_partial x (2 * n) \<le> arctan x" "arctan x \<le> arctan_partial x (2 * n + 1)"
proof -
  let ?a = "\<lambda>n. 1 / real (n * 2 + 1) * x ^ (n * 2 + 1)"
  from assms have ax: "\<bar>x\<bar> \<le> 1" by simp
  have pos: "0 < ?a 0" using assms by simp
  have "(\<Sum>i. (- 1) ^ i * ?a i)
      \<in> {\<Sum>i<2 * n. (- 1) ^ i * ?a i .. \<Sum>i<2 * n + 1. (- 1) ^ i * ?a i}"
    using summable_Leibniz(2) [OF zeroseq_arctan_series [OF ax] monoseq_arctan_series [OF ax]] pos
    by blast
  then show "arctan_partial x (2 * n) \<le> arctan x" "arctan x \<le> arctan_partial x (2 * n + 1)"
    by (simp_all add: arctan_series [OF ax] arctan_partial_def)
qed

lemma arctan_partial_1: "arctan_partial x (Suc 0) = x"
  by (simp add: arctan_partial_def)

lemma arctan_partial_2: "arctan_partial x 2 = x - x ^ 3 / 3"
  by (simp add: arctan_partial_def eval_nat_numeral)

lemma arctan_partial_3: "arctan_partial x 3 = x - x ^ 3 / 3 + x ^ 5 / 5"
  by (simp add: arctan_partial_def eval_nat_numeral)

lemma arctan_partial_4: "arctan_partial x 4 = x - x ^ 3 / 3 + x ^ 5 / 5 - x ^ 7 / 7"
  by (simp add: arctan_partial_def eval_nat_numeral)

lemma arctan_fifth: "0.197395 < arctan (1 / 5)" "arctan (1 / 5) < 0.197398"
proof -
  have "arctan_partial (1 / 5) 4 \<le> arctan (1 / 5)"
    using arctan_leibniz(1) [of "1 / 5" 2] by simp
  moreover have "(0.197395::real) < arctan_partial (1 / 5) 4"
    by (simp add: arctan_partial_4 power_divide)
  ultimately show "0.197395 < arctan (1 / 5)" by linarith
  have "arctan (1 / 5) \<le> arctan_partial (1 / 5) 3"
    using arctan_leibniz(2) [of "1 / 5" 1] by simp
  moreover have "arctan_partial (1 / 5) 3 < (0.197398::real)"
    by (simp add: arctan_partial_3 power_divide)
  ultimately show "arctan (1 / 5) < 0.197398" by linarith
qed

lemma arctan_239: "0.004184 < arctan (1 / 239)" "arctan (1 / 239) < 0.004185"
proof -
  have "arctan_partial (1 / 239) 2 \<le> arctan (1 / 239)"
    using arctan_leibniz(1) [of "1 / 239" 1] by simp
  moreover have "(0.004184::real) < arctan_partial (1 / 239) 2"
    by (simp add: arctan_partial_2 power_divide)
  ultimately show "0.004184 < arctan (1 / 239)" by linarith
  have "arctan (1 / 239) \<le> arctan_partial (1 / 239) 1"
    using arctan_leibniz(2) [of "1 / 239" 0] by simp
  moreover have "arctan_partial (1 / 239) 1 < (0.004185::real)"
    by (simp add: arctan_partial_1)
  ultimately show "arctan (1 / 239) < 0.004185" by linarith
qed

lemma pi_bounds: "3.1415 < pi" "pi < 3.1417"
proof -
  have "pi = 16 * arctan (1 / 5) - 4 * arctan (1 / 239)"
    using machin by simp
  then show "3.1415 < pi" "pi < 3.1417"
    using arctan_fifth arctan_239 by simp_all
qed

lemma arctan_third: "0.321745 < arctan (1 / 3)" "arctan (1 / 3) < 0.321811"
proof -
  have "arctan_partial (1 / 3) 4 \<le> arctan (1 / 3)"
    using arctan_leibniz(1) [of "1 / 3" 2] by simp
  moreover have "(0.321745::real) < arctan_partial (1 / 3) 4"
    by (simp add: arctan_partial_4 power_divide)
  ultimately show "0.321745 < arctan (1 / 3)" by linarith
  have "arctan (1 / 3) \<le> arctan_partial (1 / 3) 3"
    using arctan_leibniz(2) [of "1 / 3" 1] by simp
  moreover have "arctan_partial (1 / 3) 3 < (0.321811::real)"
    by (simp add: arctan_partial_3 power_divide)
  ultimately show "arctan (1 / 3) < 0.321811" by linarith
qed

lemma arctan_3: "arctan 3 = pi / 2 - arctan (1 / 3)"
  using arctan_inverse [of 3] by simp

lemma arctan_3_degrees: "71.56 < degrees (arctan 3)" "degrees (arctan 3) < 71.57"
proof -
  have p: "0 < pi" by simp
  have "71.56 * pi < arctan 3 * 180"
    using pi_bounds arctan_third by (simp add: arctan_3)
  then show "71.56 < degrees (arctan 3)"
    using p by (simp add: degrees_def pos_less_divide_eq)
  have "arctan 3 * 180 < 71.57 * pi"
    using pi_bounds arctan_third by (simp add: arctan_3)
  then show "degrees (arctan 3) < 71.57"
    using p by (simp add: degrees_def pos_divide_less_eq)
qed

lemma sqrt_90_bounds: "9.486 < sqrt 90" "sqrt 90 < 9.487"
proof -
  show "9.486 < sqrt 90"
    by (rule real_less_rsqrt) (simp add: power2_eq_square)
  show "sqrt 90 < 9.487"
    by (rule real_less_lsqrt) (simp_all add: power2_eq_square)
qed

lemma fmod_py_turn:
  assumes "0 \<le> d" "d < 360"
  shows "fmod_py (d + 360) 360 = d"
proof -
  have "\<lfloor>(d + 360) / 360\<rfloor> = 1"
    using assms by (intro floor_unique) simp_all
  then show ?thesis by (simp add: fmod_py_def)
qed

section \<open>Properties of diagram.py: the net force\<close>

lemma net_force_values_3_9:
  "net_force_values pf [PList [PNum 3, PNum 4], PList [PNum 0, PNum 5]]
     = Inr \<lparr>net_x = 3, net_y = 9, mag = sqrt 90, angle = degrees (arctan 3)\<rparr>"
proof -
  have s: "net_sum pf [PList [PNum 3, PNum 4], PList [PNum 0, PNum 5]] (0, 0) = Inr (3, 9)"
    by (simp add: py_float_def)
  have a: "atan2 9 3 = arctan 3" by (simp add: atan2_def)
  have f: "fmod_py (degrees (arctan 3) + 360) 360 = degrees (arctan 3)"
    using arctan_3_degrees by (intro fmod_py_turn) simp_all
  have h: "hypot 3 9 = sqrt 90" by (simp add: hypot_def)
  have "net_force_values pf [PList [PNum 3, PNum 4], PList [PNum 0, PNum 5]]
     = Inr \<lparr>net_x = 3, net_y = 9, mag = hypot 3 9,
            angle = fmod_py (degrees (atan2 9 3) + 360) 360\<rparr>"
    by (simp only: net_force_values_def s sum.case prod.case)
  then show ?thesis
    by (simp only: a f h)
qed

text \<open>
  C1, as amended. For the forces \<open>[[3, 4], [0, 5]]\<close> the net force has the components
  \<open>(3, 9)\<close>, the magnitude \<open>sqrt 90\<close>, between 9.486 and 9.487, and the direction
  \<open>arctan 3\<close> in degrees, between 71.56 and 71.57, counter-clockwise from the +x axis.
\<close>

theorem net_force_example:
  "net_force_values pf [PList [PNum 3, PNum 4], PList [PNum 0, PNum 5]]
     = Inr \<lparr>net_x = 3, net_y = 9, mag = sqrt 90, angle = degrees (arctan 3)\<rparr>
   \<and> 9.486 < sqrt 90 \<and> sqrt 90 < 9.487
   \<and> 71.56 < degrees (arctan 3) \<and> degrees (arctan 3) < 71.57"
  using net_force_values_3_9 [of pf] sqrt_90_bounds arctan_3_degrees
  by (intro conjI)

text \<open>
  The direction of C1 as the claim states it, 57.99 degrees, is not the one computed:
  the computed direction is more than 13 degrees larger.
\<close>

theorem net_force_direction_counterexample:
  "\<not> \<bar>angle (projr (net_force_values float_literal
          [PList [PNum 3, PNum 4], PList [PNum 0, PNum 5]])) - 57.99\<bar> < 0.01
   \<and> 71.56 < angle (projr (net_force_values float_literal
          [PList [PNum 3, PNum 4], PList [PNum 0, PNum 5]]))"
  using arctan_3_degrees by (simp add: net_force_values_3_9)

section \<open>Properties of diagram.py: the normalisation of vectors\<close>

lemma float_literal_3: "float_literal ''3'' = Some 3"
  by (simp add: float_literal_def is_digit_def)

lemma float_literal_30: "float_literal ''30'' = Some 30"
  by (simp add: float_literal_def is_digit_def)

lemma float_literal_5: "float_literal ''5'' = Some 5"
  by (simp add: float_literal_def is_digit_def)

lemma float_literal_abc: "float_literal ''abc'' = None"
  by (simp add: float_literal_def is_digit_def)

lemma py_in_sublist: "py_in sub s = sublist sub s"
  by (induction s) (simp_all add: sublist_Cons_right)

lemma parse_vector_polar_dict:
  "parse_vector pf (PDict [(''magnitude'', PNum m), (''angle_deg'', PNum a)])
     = Inr [m * cos (radians a), m * sin (radians a)]"
  by (simp add: has_key_def getitem_def as_number_def Let_def)

lemma parse_vector_no_at: "\<not> py_in ''at'' s \<Longrightarrow> parse_vector pf (PStr s) = Inr [0, 0]"
  by simp

lemma parse_text_words:
  assumes "index (py_split ''='' s) 1 = Inr after_eq"
    and "index (py_split_ws after_eq) 0 = Inr mag_word"
    and "pf mag_word = Some m"
    and "index (py_split ''at'' s) 1 = Inr after_at"
    and "index (py_split_ws after_at) 0 = Inr angle_word"
    and "pf angle_word = Some a"
  shows "parse_text pf s = Inr [m * cos (radians a), m * sin (radians a)]"
  using assms by (simp add: parse_text_def py_float_def Let_def)

text \<open>
  C2, as amended. A text that contains \<open>at\<close> (in lower case), in which the first word
  after the first \<open>=\<close> is read by \<open>float\<close> as \<open>m\<close> and the first word after the first
  \<open>at\<close> is read by \<open>float\<close> as \<open>a\<close>, is normalised to
  \<open>(m * cos a_rad, m * sin a_rad)\<close>, the result for the mapping with magnitude \<open>m\<close> and
  angle \<open>a\<close>. A text that does not contain \<open>at\<close>, a bare scalar included, is
  normalised to \<open>[0, 0]\<close>.
\<close>

theorem parse_vector_text:
  "(py_in ''at'' s
      \<and> index (py_split ''='' s) 1 = Inr after_eq
      \<and> index (py_split_ws after_eq) 0 = Inr mag_word \<and> pf mag_word = Some m
      \<and> index (py_split ''at'' s) 1 = Inr after_at
      \<and> index (py_split_ws after_at) 0 = Inr angle_word \<and> pf angle_word = Some a
    \<longrightarrow> parse_vector pf (PStr s) = Inr [m * cos (radians a), m * sin (radians a)]
      \<and> parse_vector pf (PStr s)
          = parse_vector pf (PDict [(''magnitude'', PNum m), (''angle_deg'', PNum a)]))
   \<and> (\<not> py_in ''at'' t \<longrightarrow> parse_vector pf (PStr t) = Inr [0, 0])"
proof (intro conjI impI)
  assume h: "py_in ''at'' s
      \<and> index (py_split ''='' s) 1 = Inr after_eq
      \<and> index (py_split_ws after_eq) 0 = Inr mag_word \<and> pf mag_word = Some m
      \<and> index (py_split ''at'' s) 1 = Inr after_at
      \<and> index (py_split_ws after_at) 0 = Inr angle_word \<and> pf angle_word = Some a"
  then have "parse_text pf s = Inr [m * cos (radians a), m * sin (radians a)]"
    by (intro parse_text_words [of s after_eq mag_word pf m after_at angle_word a]) simp_all
  with h show r: "parse_vector pf (PStr s) = Inr [m * cos (radians a), m * sin (radians a)]"
    by simp
  show "parse_vector pf (PStr s)
      = parse_vector pf (PDict [(''magnitude'', PNum m), (''angle_deg'', PNum a)])"
    by (simp only: r parse_vector_polar_dict)
next
  assume "\<not> py_in ''at'' t"
  then show "parse_vector pf (PStr t) = Inr [0, 0]"
    by (rule parse_vector_no_at)
qed

theorem parse_vector_text_witness:
  "parse_vector float_literal (PStr ''F=3 N at 30 deg'')
     = Inr [3 * cos (radians 30), 3 * sin (radians 30)]
   \<and> parse_vector float_literal (PStr ''F=3 N at 30 deg'')
     = parse_vector float_literal (PDict [(''magnitude'', PNum 3), (''angle_deg'', PNum 30)])
   \<and> parse_vector float_literal (PStr ''5 N'') = Inr [0, 0]"
proof -
  have h: "py_in ''at'' ''F=3 N at 30 deg''
      \<and> index (py_split ''='' ''F=3 N at 30 deg'') 1 = Inr ''3 N at 30 deg''
      \<and> index (py_split_ws ''3 N at 30 deg'') 0 = Inr ''3'' \<and> float_literal ''3'' = Some 3
      \<and> index (py_split ''at'' ''F=3 N at 30 deg'') 1 = Inr '' 30 deg''
      \<and> index (py_split_ws '' 30 deg'') 0 = Inr ''30'' \<and> float_literal ''30'' = Some 30"
    by (simp add: py_split_def py_split_ws_def index_def is_space_def
        float_literal_3 float_literal_30)
  have n: "\<not> py_in ''at'' ''5 N''" by simp
  from parse_vector_text
    [of "''F=3 N at 30 deg''" "''3 N at 30 deg''" "''3''" float_literal 3 "'' 30 deg''"
        "''30''" 30 "''5 N''"]
    h n
  show ?thesis by blast
qed

text \<open>
  The claim C2 as it is stated fails: the text \<open>3 at 30\<close> matches "number at number",
  \<open>float\<close> reads both numbers, and the result is \<open>[0, 0]\<close>, not the components of
  magnitude 3 at 30 degrees; \<open>AT\<close> in upper case is not found, and the result is
  \<open>[0, 0]\<close> again; the bare scalar \<open>5\<close> gives \<open>[0, 0]\<close>, not \<open>[5, 0]\<close>.
\<close>

theorem parse_vector_text_counterexample:
  "parse_vector float_literal (PStr ''3 at 30'') = Inr [0, 0]
   \<and> float_literal ''3'' = Some 3 \<and> float_literal ''30'' = Some 30
   \<and> parse_vector float_literal (PDict [(''magnitude'', PNum 3), (''angle_deg'', PNum 30)])
       = Inr [3 * sqrt 3 / 2, 3 / 2]
   \<and> parse_vector float_literal (PStr ''3 at 30'')
       \<noteq> parse_vector float_literal (PDict [(''magnitude'', PNum 3), (''angle_deg'', PNum 30)])
   \<and> parse_vector float_literal (PStr ''F=3 N AT 30 deg'') = Inr [0, 0]
   \<and> parse_vector float_literal (PStr ''5'') = Inr [0, 0]
   \<and> float_literal ''5'' = Some 5
   \<and> parse_vector float_literal (PStr ''5'') \<noteq> Inr [5, 0]"
proof -
  have u: "parse_vector float_literal (PStr ''F=3 N AT 30 deg'') = Inr [0, 0]"
    by simp
  have a: "parse_vector float_literal (PStr ''3 at 30'') = Inr [0, 0]"
    by (simp add: parse_text_def py_split_def index_def)
  have b: "parse_vector float_literal (PDict [(''magnitude'', PNum 3), (''angle_deg'', PNum 30)])
       = Inr [3 * sqrt 3 / 2, 3 / 2]"
    by (simp only: parse_vector_polar_dict) (simp add: radians_def cos_30 sin_30)
  have c: "parse_vector float_literal (PStr ''5'') = Inr [0, 0]"
    by simp
  have d: "parse_vector float_literal (PStr ''3 at 30'')
       \<noteq> parse_vector float_literal (PDict [(''magnitude'', PNum 3), (''angle_deg'', PNum 30)])"
    by (simp only: a b) simp
  have e: "parse_vector float_literal (PStr ''5'') \<noteq> Inr [5, 0]"
    by (simp only: c) simp
  show ?thesis
    using a b c d e u float_literal_3 float_literal_30 float_literal_5 by (intro conjI)
qed

lemma parse_vector_unrecognized:
  "unrecognized pf v \<Longrightarrow> parse_vector pf v = Inr [0, 0]"
  by (cases v) (auto simp: unrecognized_def parseable_text_def split: sum.splits)

lemma net_sum_skip:
  "parse_vector pf v = Inr [0, 0] \<Longrightarrow> net_sum pf (xs @ v # ys) acc = net_sum pf (xs @ ys) acc"
proof (induction xs arbitrary: acc)
  case Nil
  then show ?case by simp
next
  case (Cons x xs)
  show ?case
  proof (cases "parse_vector pf x")
    case (Inl e)
    then show ?thesis by simp
  next
    case (Inr r)
    then show ?thesis
      using Cons.IH [OF Cons.prems] by (simp split: list.splits)
  qed
qed

text \<open>
  C5, as amended. For every input that is not recognised (not a mapping with both keys,
  not a list of two elements, not a text that contains \<open>at\<close> and parses), the
  normalisation returns the zero vector \<open>[0, 0]\<close>, which is all it returns, and does
  not raise; in the sum of a list of forces such an entry counts as nothing and the
  other entries are summed as without it.
\<close>

theorem parse_vector_degrades_to_zero:
  "(unrecognized pf v \<longrightarrow> parse_vector pf v = Inr [0, 0])
   \<and> (unrecognized pf v \<longrightarrow> net_sum pf (xs @ v # ys) acc = net_sum pf (xs @ ys) acc)"
  using parse_vector_unrecognized [of pf v] net_sum_skip [of pf v xs ys acc]
  by blast

theorem parse_vector_degrades_to_zero_witness:
  "parse_vector float_literal (PStr ''abc'') = Inr [0, 0]
   \<and> net_sum float_literal [PList [PNum 3, PNum 4], PStr ''abc'', PList [PNum 0, PNum 5]] (0, 0)
     = Inr (3, 9)"
proof -
  have u: "unrecognized float_literal (PStr ''abc'')"
    by (simp add: unrecognized_def parseable_text_def)
  have s: "net_sum float_literal [PList [PNum 3, PNum 4], PList [PNum 0, PNum 5]] (0, 0)
      = Inr (3, 9)"
    by (simp add: py_float_def)
  from parse_vector_degrades_to_zero
    [of float_literal "PStr ''abc''" "[PList [PNum 3, PNum 4]]" "[PList [PNum 0, PNum 5]]" "(0, 0)"]
    u s
  show ?thesis by simp
qed

text \<open>
  The claim C5 as it is stated fails in its diagnostic: the result for a text that
  cannot be parsed is the very result for the components \<open>[0, 0]\<close>, so nothing in it
  tells the caller that the parse failed.
\<close>

theorem parse_vector_diagnostic_counterexample:
  "parse_vector float_literal (PStr ''abc'') = Inr [0, 0]
   \<and> parse_vector float_literal (PStr ''abc'')
       = parse_vector float_literal (PList [PNum 0, PNum 0])
   \<and> net_force_values float_literal [PStr ''abc'']
       = net_force_values float_literal [PList [PNum 0, PNum 0]]"
  by (simp add: net_force_values_def py_float_def)

section \<open>Properties of diagram.py: the diagram\<close>

lemma smart_entry_unparsed: "sf s = None \<Longrightarrow> smart_entry sf idx (PStr s) = []"
  by (simp add: smart_entry_def)

lemma force_dicts_append:
  "force_dicts sf idx (xs @ ys) = force_dicts sf idx xs @ force_dicts sf (idx + length xs) ys"
  by (induction xs arbitrary: idx) simp_all

lemma length_smart_entry: "length (smart_entry sf idx f) \<le> 1"
  by (cases f) (simp_all add: smart_entry_def split: option.splits)

lemma length_force_dicts: "length (force_dicts sf idx xs) \<le> length xs"
proof (induction xs arbitrary: idx)
  case Nil
  then show ?case by simp
next
  case (Cons f fs)
  have "length (force_dicts sf idx (f # fs))
      = length (smart_entry sf idx f) + length (force_dicts sf (idx + 1) fs)"
    by simp
  also have "\<dots> \<le> 1 + length fs"
    using length_smart_entry [of sf idx f] Cons.IH [of "idx + 1"] by linarith
  finally show ?case by simp
qed

lemma force_dicts_unparsed:
  assumes "sf s = None"
  shows "force_dicts sf idx (xs @ PStr s # ys)
      = force_dicts sf idx xs @ force_dicts sf (idx + length xs + 1) ys"
  using assms by (simp add: force_dicts_append smart_entry_unparsed)

lemma draw_force_arrows:
  assumes "draw_force fmt pf idx force = Inr es"
  shows "length (arrows (dwg\<lparr>elements := elements dwg @ es\<rparr>)) = length (arrows dwg) + 1"
  using assms
  by (auto simp: draw_force_def arrows_def Let_def split: sum.splits)

lemma draw_forces_arrows:
  "draw_forces fmt pf idx forces dwg = Inr dwg'
     \<Longrightarrow> length (arrows dwg') = length (arrows dwg) + length forces"
proof (induction forces arbitrary: idx dwg)
  case Nil
  then show ?case by simp
next
  case (Cons force forces)
  from Cons.prems obtain es where
    es: "draw_force fmt pf idx force = Inr es"
    and rest: "draw_forces fmt pf (idx + 1) forces (dwg\<lparr>elements := elements dwg @ es\<rparr>) = Inr dwg'"
    by (auto split: sum.splits)
  from Cons.IH [OF rest] draw_force_arrows [OF es, of dwg]
  show ?case by simp
qed

lemma free_body_drawing_arrows:
  assumes "free_body_drawing fmt pf forces object_name = Inr dwg"
  shows "length (arrows dwg) = length forces"
  using draw_forces_arrows [OF assms [unfolded free_body_drawing_def Let_def]]
  by (simp add: arrows_def)

text \<open>
  C9. In \<open>smart_diagram\<close> a text entry that does not parse as a number is dropped: it
  adds nothing to the forces that are drawn, the diagram of a list that ends with such
  an entry is the diagram of the list without it (no arrow, no placeholder, no
  diagnostic), and a diagram that is produced has fewer arrows than forces were
  supplied.
\<close>

theorem smart_diagram_drops_unparsed_text:
  "(sf s = None \<longrightarrow>
      force_dicts sf 0 (xs @ PStr s # ys)
        = force_dicts sf 0 xs @ force_dicts sf (length xs + 1) ys)
   \<and> (sf s = None \<longrightarrow>
      smart_diagram tostring fmt pf sf (xs @ [PStr s]) object_name
        = smart_diagram tostring fmt pf sf xs object_name)
   \<and> (sf s = None
      \<and> free_body_drawing fmt pf (force_dicts sf 0 (xs @ PStr s # ys)) object_name = Inr dwg
      \<longrightarrow> length (arrows dwg) < length (xs @ PStr s # ys))"
proof (intro conjI impI)
  assume "sf s = None"
  then show "force_dicts sf 0 (xs @ PStr s # ys)
      = force_dicts sf 0 xs @ force_dicts sf (length xs + 1) ys"
    using force_dicts_unparsed [of sf s 0 xs ys] by simp
next
  assume "sf s = None"
  then have "force_dicts sf 0 (xs @ [PStr s]) = force_dicts sf 0 xs"
    using force_dicts_unparsed [of sf s 0 xs "[]"] by simp
  then show "smart_diagram tostring fmt pf sf (xs @ [PStr s]) object_name
      = smart_diagram tostring fmt pf sf xs object_name"
    by (simp add: smart_diagram_def)
next
  assume h: "sf s = None
      \<and> free_body_drawing fmt pf (force_dicts sf 0 (xs @ PStr s # ys)) object_name = Inr dwg"
  then have "length (arrows dwg) = length (force_dicts sf 0 (xs @ PStr s # ys))"
    by (intro free_body_drawing_arrows [of fmt pf _ object_name]) simp
  also have "\<dots> = length (force_dicts sf 0 xs) + length (force_dicts sf (length xs + 1) ys)"
    using h force_dicts_unparsed [of sf s 0 xs ys] by simp
  also have "\<dots> \<le> length xs + length ys"
    using length_force_dicts [of sf 0 xs] length_force_dicts [of sf "length xs + 1" ys]
    by linarith
  finally show "length (arrows dwg) < length (xs @ PStr s # ys)"
    by simp
qed

theorem smart_diagram_drops_unparsed_text_witness:
  "force_dicts float_literal 0 [PList [PNum 1, PNum 0], PStr ''abc'']
     = [[(''label'', PStr ''F1''), (''vector'', PList [PNum 1, PNum 0])]]
   \<and> smart_diagram (\<lambda>dwg. ''svg'') (\<lambda>n r. ''0'') float_literal float_literal
        [PList [PNum 1, PNum 0], PStr ''abc''] ''Body''
     = smart_diagram (\<lambda>dwg. ''svg'') (\<lambda>n r. ''0'') float_literal float_literal
        [PList [PNum 1, PNum 0]] ''Body''
   \<and> free_body_drawing (\<lambda>n r. ''0'') float_literal
        (force_dicts float_literal 0 [PList [PNum 1, PNum 0], PStr ''abc'']) ''Body''
     = Inr \<lparr>size = (400, 400),
            elements = [Circle (200, 200) 20 ''lightgrey'' ''black'' 2,
                        Text (PStr ''Body'') (178, 245) ''16px'' ''black'',
                        Line (200, 200) (230, 200) ''red'' 4 ''url(#arrow)'',
                        Text (PStr ''F1'') (225, 190) ''12px'' ''red''],
            defs = [Marker (10, 5) (10, 10) ''auto'' ''arrow''
                      [Polygon [(0, 0), (10, 5), (0, 10)] ''black'']]\<rparr>
   \<and> length (arrows \<lparr>size = (400, 400),
            elements = [Circle (200, 200) 20 ''lightgrey'' ''black'' 2,
                        Text (PStr ''Body'') (178, 245) ''16px'' ''black'',
                        Line (200, 200) (230, 200) ''red'' 4 ''url(#arrow)'',
                        Text (PStr ''F1'') (225, 190) ''12px'' ''red''],
            defs = [Marker (10, 5) (10, 10) ''auto'' ''arrow''
                      [Polygon [(0, 0), (10, 5), (0, 10)] ''black'']]\<rparr>)
     < length [PList [PNum 1, PNum 0], PStr ''abc'']"
proof -
  let ?dwg = "\<lparr>size = (400, 400),
            elements = [Circle (200, 200) 20 ''lightgrey'' ''black'' 2,
                        Text (PStr ''Body'') (178, 245) ''16px'' ''black'',
                        Line (200, 200) (230, 200) ''red'' 4 ''url(#arrow)'',
                        Text (PStr ''F1'') (225, 190) ''12px'' ''red''],
            defs = [Marker (10, 5) (10, 10) ''auto'' ''arrow''
                      [Polygon [(0, 0), (10, 5), (0, 10)] ''black'']]\<rparr>"
  have fd: "force_dicts float_literal 0 [PList [PNum 1, PNum 0], PStr ''abc'']
     = [[(''label'', PStr ''F1''), (''vector'', PList [PNum 1, PNum 0])]]"
    by (simp add: smart_entry_def float_literal_abc)
  have df: "draw_force (\<lambda>n r. ''0'') float_literal 0
        [(''label'', PStr ''F1''), (''vector'', PList [PNum 1, PNum 0])]
      = Inr [Line (200, 200) (230, 200) ''red'' 4 ''url(#arrow)'',
             Text (PStr ''F1'') (225, 190) ''12px'' ''red'']"
    by (simp add: draw_force_def getitem_def py_float_def hypot_def atan2_def center_def
        color_cycle_def Let_def)
  have d: "free_body_drawing (\<lambda>n r. ''0'') float_literal
        (force_dicts float_literal 0 [PList [PNum 1, PNum 0], PStr ''abc'']) ''Body''
     = Inr ?dwg"
    by (simp only: fd) (simp add: free_body_drawing_def df center_def Let_def)
  note w = smart_diagram_drops_unparsed_text
    [where sf = float_literal and s = "''abc''" and xs = "[PList [PNum 1, PNum 0]]"
       and ys = "[]" and tostring = "\<lambda>dwg. ''svg''" and fmt = "\<lambda>n r. ''0''"
       and pf = float_literal and object_name = "''Body''" and dwg = ?dwg]
  have c2: "smart_diagram (\<lambda>dwg. ''svg'') (\<lambda>n r. ''0'') float_literal float_literal
        [PList [PNum 1, PNum 0], PStr ''abc''] ''Body''
     = smart_diagram (\<lambda>dwg. ''svg'') (\<lambda>n r. ''0'') float_literal float_literal
        [PList [PNum 1, PNum 0]] ''Body''"
    using w float_literal_abc by simp
  have c3: "length (arrows ?dwg) < length [PList [PNum 1, PNum 0], PStr ''abc'']"
    using w float_literal_abc d by simp
  show ?thesis
    by (rule conjI [OF fd conjI [OF c2 conjI [OF d c3]]])
qed





end
